theory Spec2Isabelle
  imports Complex_Main
begin

section \<open>JavaScript values used by the matching core\<close>

text \<open>
  A JavaScript Number is modelled as an exact real, together with the three special
  values NaN, -Infinity and +Infinity. Arithmetic on finite numbers is exact (the
  rounding of IEEE doubles is not modelled); comparisons follow ECMAScript: every
  comparison with NaN is false.
\<close>

datatype number = NaN | NegInf | Fin real | PosInf

fun isNaN :: "number \<Rightarrow> bool" where
  "isNaN NaN = True"
| "isNaN _ = False"

text \<open>\<open>num_less a b\<close> is the JavaScript expression \<open>a < b\<close>; \<open>a > b\<close> is \<open>num_less b a\<close>.\<close>

fun num_less :: "number \<Rightarrow> number \<Rightarrow> bool" where
  "num_less NaN _ = False"
| "num_less _ NaN = False"
| "num_less (Fin a) (Fin b) = (a < b)"
| "num_less NegInf NegInf = False"
| "num_less NegInf _ = True"
| "num_less PosInf _ = False"
| "num_less (Fin a) NegInf = False"
| "num_less (Fin a) PosInf = True"

section \<open>locationUtils: validateCoordinates\<close>

text \<open>
  The GeoJSON object \<open>{ type: 'Point', coordinates: [lng, lat] }\<close>. An array path of a
  Mongoose document is always an array, and every guard of the source sends a missing
  array where it sends an empty one, so arrays are lists and a missing array is \<open>[]\<close>.
\<close>

record geo_point =
  ptype :: string
  coordinates :: "number list"

text \<open>
  \<open>parseFloat\<close> is a builtin of the language, not code of the repository: it is the
  parameter \<open>pf\<close>, from the raw request value to the Number it denotes. The two
  \<open>return null\<close> of the source are \<open>None\<close>.
\<close>

definition validateCoordinates :: "('raw \<Rightarrow> number) \<Rightarrow> 'raw \<Rightarrow> 'raw \<Rightarrow> geo_point option" where
  "validateCoordinates pf latitude longitude =
     (let lat = pf latitude; lng = pf longitude in
      if isNaN lat \<or> isNaN lng then None
      else if num_less lat (Fin (- 90)) \<or> num_less (Fin 90) lat
              \<or> num_less lng (Fin (- 180)) \<or> num_less (Fin 180) lng then None
      else Some \<lparr>ptype = ''Point'', coordinates = [lng, lat]\<rparr>)"

text \<open>
  The specification's wording of validity: a numeric value inside the closed interval.
\<close>

definition in_interval :: "real \<Rightarrow> real \<Rightarrow> number \<Rightarrow> bool" where
  "in_interval lo hi n = (case n of Fin r \<Rightarrow> lo \<le> r \<and> r \<le> hi | _ \<Rightarrow> False)"

definition valid_latitude :: "number \<Rightarrow> bool" where
  "valid_latitude n = in_interval (- 90) 90 n"

definition valid_longitude :: "number \<Rightarrow> bool" where
  "valid_longitude n = in_interval (- 180) 180 n"

section \<open>Strings\<close>

text \<open>
  A string is the list of its code units; the model covers code units below 256, where
  \<open>toLowerCase\<close> maps A-Z and the accented capitals 0xC0-0xDE (0xD7, the
  multiplication sign, apart) to the letter 32 places up, and \<open>trim\<close> removes tab,
  line feed, vertical tab, form feed, carriage return, space and no-break space.
\<close>

definition toLowerCase_char :: "char \<Rightarrow> char" where
  "toLowerCase_char c =
     (let n = (of_char c :: nat) in
      if (65 \<le> n \<and> n \<le> 90) \<or> (192 \<le> n \<and> n \<le> 222 \<and> n \<noteq> 215)
      then char_of (n + 32) else c)"

definition toLowerCase :: "string \<Rightarrow> string" where
  "toLowerCase s = map toLowerCase_char s"

definition is_space :: "char \<Rightarrow> bool" where
  "is_space c = ((of_char c :: nat) \<in> {9, 10, 11, 12, 13, 32, 160})"

definition trim :: "string \<Rightarrow> string" where
  "trim s = rev (dropWhile is_space (rev (dropWhile is_space s)))"

text \<open>\<open>s.split(d)\<close> for a one-character separator, and \<open>parts.join(d)\<close>.\<close>

fun split_on :: "char \<Rightarrow> string \<Rightarrow> string list" where
  "split_on d [] = [[]]"
| "split_on d (c # cs) =
     (if c = d then [] # split_on d cs
      else (case split_on d cs of [] \<Rightarrow> [[c]] | p # ps \<Rightarrow> (c # p) # ps))"

fun join :: "string \<Rightarrow> string list \<Rightarrow> string" where
  "join d [] = []"
| "join d [x] = x"
| "join d (x # y # ys) = x @ d @ join d (y # ys)"



section \<open>Documents: notifications, workers, jobs, users\<close>

type_synonym objid = nat

text \<open>A Date is its time value in milliseconds since the epoch.\<close>

type_synonym timevalue = int

record notification =
  n_type :: string
  n_job :: objid
  n_message :: string
  n_isRead :: bool
  n_createdAt :: timevalue

text \<open>
  A document has the paths its schema declares: Mongoose stores and reads back those
  and no others. The worker profile, with the declared paths the matching core reads or
  writes (\<open>city\<close>, \<open>rating\<close> and \<open>completedJobs\<close> are touched by none of the
  functions below). \<open>serviceRadius\<close> and \<open>location\<close> may be absent from a stored
  document.
\<close>

record worker =
  w_id :: objid
  w_user :: objid
  w_skills :: "string list"
  w_serviceRadius :: "number option"
  w_location :: "geo_point option"
  w_notifications :: "notification list"
  w_categories :: "string list"

datatype job_status = pending | in_progress | completed | cancelled

text \<open>The job document, with the declared paths the functions below read or write.\<close>

record job =
  j_id :: objid
  j_title :: string
  j_category :: "string option"
  j_location :: "geo_point option"
  j_address :: "string option"
  j_deadline :: timevalue
  j_timeStart :: string
  j_status :: job_status
  j_user :: objid
  j_worker :: "objid option"
  j_createdAt :: timevalue

record user =
  u_id :: objid
  u_userType :: string
  u_rating :: number

text \<open>
  What a handler sends: \<open>res.status(code).json({ message })\<close> or an \<open>ErrorResponse\<close>
  handed to \<open>next\<close> is \<open>Failure code message\<close>, a successful body is \<open>Success\<close>.
\<close>

datatype 'a response = Failure nat string | Success 'a

section \<open>Worker model: the pre-save hook\<close>

definition validCategories :: "string list" where
  "validCategories =
     [''plumbing'', ''electrical'', ''carpentry'', ''painting'', ''cleaning'', ''gardening'',
      ''moving'', ''appliance_repair'', ''hvac'', ''roofing'', ''other'']"

text \<open>\<open>validCategories.find(cat => cat.toLowerCase() === skill.toLowerCase()) || 'general'\<close>\<close>

definition skill_category :: "string \<Rightarrow> string" where
  "skill_category skill =
     (case find (\<lambda>cat. toLowerCase cat = toLowerCase skill) validCategories of
        Some match \<Rightarrow> match
      | None \<Rightarrow> ''general'')"

text \<open>
  The hook first replaces string coordinates by their \<open>parseFloat\<close>; coordinates of a
  document are Numbers already, which that step leaves as they are.
\<close>

definition pre_save :: "worker \<Rightarrow> worker" where
  "pre_save w =
     (if w_categories w = [] \<and> w_skills w \<noteq> []
      then w\<lparr>w_categories := map skill_category (w_skills w)\<rparr>
      else w)"

section \<open>Notification dispatch\<close>












section \<open>Distance: the Haversine formula\<close>

text \<open>
  The arithmetic of doubles and the functions of \<open>Math\<close> belong to the language, not to
  the repository: the operations that the two distance functions use are the fields of a
  record, each giving the Number that the operation returns on its operands.
\<close>

record arith =
  fp_add :: "number \<Rightarrow> number \<Rightarrow> number"
  fp_sub :: "number \<Rightarrow> number \<Rightarrow> number"
  fp_mul :: "number \<Rightarrow> number \<Rightarrow> number"
  fp_div :: "number \<Rightarrow> number \<Rightarrow> number"
  Math_sin :: "number \<Rightarrow> number"
  Math_cos :: "number \<Rightarrow> number"
  Math_sqrt :: "number \<Rightarrow> number"
  Math_atan2 :: "number \<Rightarrow> number \<Rightarrow> number"
  Math_round :: "number \<Rightarrow> number"
  Math_PI :: number

text \<open>\<open>(value * Math.PI) / 180\<close>\<close>

definition toRad :: "arith \<Rightarrow> number \<Rightarrow> number" where
  "toRad fp v = fp_div fp (fp_mul fp v (Math_PI fp)) (Fin 180)"

text \<open>
  The body shared by both distance functions, operation by operation in the order of
  the source; products associate to the left.
\<close>

definition haversine :: "arith \<Rightarrow> number \<Rightarrow> number \<Rightarrow> number \<Rightarrow> number \<Rightarrow> number" where
  "haversine fp lng1 lat1 lng2 lat2 =
     (let R = Fin 6371;
          dLat = toRad fp (fp_sub fp lat2 lat1);
          dLng = toRad fp (fp_sub fp lng2 lng1);
          a = fp_add fp
                (fp_mul fp (Math_sin fp (fp_div fp dLat (Fin 2))) (Math_sin fp (fp_div fp dLat (Fin 2))))
                (fp_mul fp
                   (fp_mul fp
                      (fp_mul fp (Math_cos fp (toRad fp lat1)) (Math_cos fp (toRad fp lat2)))
                      (Math_sin fp (fp_div fp dLng (Fin 2))))
                   (Math_sin fp (fp_div fp dLng (Fin 2))));
          c = fp_mul fp (Fin 2)
                (Math_atan2 fp (Math_sqrt fp a) (Math_sqrt fp (fp_sub fp (Fin 1) a)))
      in fp_div fp (Math_round fp (fp_mul fp (fp_mul fp R c) (Fin 10))) (Fin 10))"

text \<open>\<open>calculateDistance\<close> of locationUtils, with its sentinel -1 for a malformed point.\<close>

definition calculateDistance :: "arith \<Rightarrow> number list \<Rightarrow> number list \<Rightarrow> number" where
  "calculateDistance fp coords1 coords2 =
     (if length coords1 < 2 \<or> length coords2 < 2 then Fin (- 1)
      else haversine fp (coords1 ! 0) (coords1 ! 1) (coords2 ! 0) (coords2 ! 1))"

text \<open>
  \<open>calculateDistance\<close> of geolocation: it destructures the two arrays, and a missing
  component is \<open>undefined\<close>, which the arithmetic reads as NaN.
\<close>

definition component :: "number list \<Rightarrow> nat \<Rightarrow> number" where
  "component coords i = (if i < length coords then coords ! i else NaN)"

definition geolocation_calculateDistance :: "arith \<Rightarrow> number list \<Rightarrow> number list \<Rightarrow> number" where
  "geolocation_calculateDistance fp coords1 coords2 =
     haversine fp (component coords1 0) (component coords1 1)
       (component coords2 0) (component coords2 1)"

section \<open>geolocation: getApproximateAddress and isValidCoordinates\<close>

definition getApproximateAddress :: "string option \<Rightarrow> string" where
  "getApproximateAddress address =
     (case address of
        None \<Rightarrow> ''Unknown''
      | Some a \<Rightarrow>
          if a = [] then ''Unknown''
          else (let addressParts = split_on CHR '','' a in
                if length addressParts > 1 then trim (join '','' (drop 1 addressParts))
                else a))"

definition isValidCoordinates :: "number list \<Rightarrow> bool" where
  "isValidCoordinates coords =
     (if length coords \<noteq> 2 then False
      else (let lng = coords ! 0; lat = coords ! 1 in
            if isNaN lng \<or> isNaN lat then False
            else if num_less lng (Fin (- 180)) \<or> num_less (Fin 180) lng then False
            else if num_less lat (Fin (- 90)) \<or> num_less (Fin 90) lat then False
            else if lng = Fin 0 \<and> lat = Fin 0 then False
            else True))"

section \<open>Worker routes: nearby jobs\<close>

text \<open>
  A job of the result: the job's own paths, \<open>approximateLocation\<close> and \<open>distance\<close>.
  \<open>delete jobObj.location\<close> leaves the object without the path: \<open>j_location\<close> is
  \<open>None\<close>.
\<close>

record nearby_job = job +
  approximateLocation :: "string option"
  distance :: "number option"

text \<open>\<open>(worker.serviceRadius || 100) * 1000\<close>: 0, NaN and a missing radius are falsy.\<close>

definition maxDistance :: "worker \<Rightarrow> number" where
  "maxDistance w =
     (case w_serviceRadius w of
        None \<Rightarrow> Fin (100 * 1000)
      | Some NaN \<Rightarrow> Fin (100 * 1000)
      | Some (Fin r) \<Rightarrow> (if r = 0 then Fin (100 * 1000) else Fin (r * 1000))
      | Some PosInf \<Rightarrow> PosInf
      | Some NegInf \<Rightarrow> NegInf)"

text \<open>The guard in front of \<open>query.category = { $in: worker.categories }\<close>.\<close>

definition category_filter_applies :: "worker \<Rightarrow> bool" where
  "category_filter_applies w =
     (w_categories w \<noteq> []
      \<and> \<not> (length (w_categories w) = 1 \<and> ''general'' \<in> set (w_categories w)))"

text \<open>
  The query. \<open>$nearSphere\<close> is evaluated by the database: it is the parameter \<open>near\<close>,
  which says whether a point lies within the given number of metres of the centre. A
  job without a location matches no geospatial query.
\<close>

definition nearby_query ::
    "(geo_point \<Rightarrow> number \<Rightarrow> geo_point \<Rightarrow> bool) \<Rightarrow> worker \<Rightarrow> geo_point \<Rightarrow> job \<Rightarrow> bool" where
  "nearby_query near w centre j =
     (j_status j = pending \<and> j_worker j = None
      \<and> (case j_location j of None \<Rightarrow> False | Some p \<Rightarrow> near centre (maxDistance w) p)
      \<and> (if category_filter_applies w
         then (case j_category j of None \<Rightarrow> False | Some c \<Rightarrow> c \<in> set (w_categories w))
         else True))"

definition approximate_location :: "string option \<Rightarrow> string option" where
  "approximate_location address =
     (let addressParts = (case address of
                            None \<Rightarrow> [''Unknown'']
                          | Some a \<Rightarrow> if a = [] then [''Unknown''] else split_on CHR '','' a)
      in if length addressParts > 1 then Some (trim (join '','' (drop 1 addressParts)))
         else address)"

definition jobWithApproximateLocation ::
    "arith \<Rightarrow> worker \<Rightarrow> geo_point \<Rightarrow> job \<Rightarrow> nearby_job" where
  "jobWithApproximateLocation fp w centre j =
     job.extend (j\<lparr>j_location := None\<rparr>)
       \<lparr>approximateLocation = approximate_location (j_address j),
        distance = (case j_location j of
                      None \<Rightarrow> None
                    | Some p \<Rightarrow> Some (calculateDistance fp (coordinates centre) (coordinates p)))\<rparr>"

text \<open>
  The handler, behind the \<open>isWorker\<close> middleware, with the arithmetic \<open>fp\<close> of the
  distance. The jobs collection is a list; the sort by \<open>createdAt\<close>, newest first, is
  stable, and the result is cut at 20.
\<close>

definition nearby_jobs ::
    "arith \<Rightarrow> (geo_point \<Rightarrow> number \<Rightarrow> geo_point \<Rightarrow> bool) \<Rightarrow> user \<Rightarrow> worker list \<Rightarrow> job list
       \<Rightarrow> nearby_job list response" where
  "nearby_jobs fp near u workers jobs =
     (if u_userType u \<noteq> ''worker'' then Failure 403 ''Access denied. Worker only route.''
      else case find (\<lambda>w. w_user w = u_id u) workers of
        None \<Rightarrow> Failure 404 ''Worker profile not found''
      | Some w \<Rightarrow>
          (case w_location w of
             None \<Rightarrow> Failure 400 ''Valid worker location not found. Please update your registered location.''
           | Some centre \<Rightarrow>
               if length (coordinates centre) \<noteq> 2
                  \<or> (coordinates centre ! 0 = Fin 0 \<and> coordinates centre ! 1 = Fin 0)
               then Failure 400 ''Valid worker location not found. Please update your registered location.''
               else Success (map (jobWithApproximateLocation fp w centre)
                      (take 20 (sort_key (\<lambda>j. - j_createdAt j)
                         (filter (nearby_query near w centre) jobs))))))"

section \<open>Worker routes: update-location\<close>

text \<open>\<open>findOneAndUpdate\<close> and \<open>save\<close> change the first document the filter selects.\<close>

fun update_first :: "('a \<Rightarrow> bool) \<Rightarrow> ('a \<Rightarrow> 'a) \<Rightarrow> 'a list \<Rightarrow> 'a list" where
  "update_first P f [] = []"
| "update_first P f (x # xs) = (if P x then f x # xs else x # update_first P f xs)"

definition update_location ::
    "('raw \<Rightarrow> number) \<Rightarrow> user \<Rightarrow> 'raw \<Rightarrow> 'raw \<Rightarrow> worker list \<Rightarrow> geo_point response \<times> worker list" where
  "update_location pf u latitude longitude workers =
     (if u_userType u \<noteq> ''worker'' then (Failure 403 ''Access denied. Worker only route.'', workers)
      else case validateCoordinates pf latitude longitude of
        None \<Rightarrow> (Failure 400 ''Invalid coordinates. Latitude must be between -90 and 90, longitude between -180 and 180.'', workers)
      | Some locationObj \<Rightarrow>
          (case find (\<lambda>w. w_user w = u_id u) workers of
             None \<Rightarrow> (Failure 404 ''Worker profile not found'', workers)
           | Some w \<Rightarrow>
               (Success locationObj,
                update_first (\<lambda>w. w_user w = u_id u) (\<lambda>w. w\<lparr>w_location := Some locationObj\<rparr>)
                  workers)))"

section \<open>Dates\<close>

text \<open>
  The Date operations of ECMAScript on time values; an invalid Date, whose time value
  is NaN, is \<open>None\<close>. The time zone of the host is a parameter: its offset from UTC in
  milliseconds at an instant (\<open>LocalTZA(t, true)\<close>) and at a local time
  (\<open>LocalTZA(t, false)\<close>, which reads a local time that a change of the offset
  repeats or skips with the offset before the change).
\<close>

record zone =
  tza_utc :: "timevalue \<Rightarrow> int"
  tza_local :: "int \<Rightarrow> int"

definition msPerDay :: int where "msPerDay = 86400000"
definition msPerHour :: int where "msPerHour = 3600000"
definition msPerMinute :: int where "msPerMinute = 60000"
definition msPerSecond :: int where "msPerSecond = 1000"

definition TimeClip :: "int \<Rightarrow> timevalue option" where
  "TimeClip t = (if \<bar>t\<bar> > 8640000000000000 then None else Some t)"

definition LocalTime :: "zone \<Rightarrow> timevalue \<Rightarrow> int" where
  "LocalTime tz t = t + tza_utc tz t"

definition UTC :: "zone \<Rightarrow> int \<Rightarrow> int" where
  "UTC tz t = t - tza_local tz t"

definition Day :: "int \<Rightarrow> int" where
  "Day t = t div msPerDay"

definition HourFromTime :: "int \<Rightarrow> int" where
  "HourFromTime t = (t div msPerHour) mod 24"

definition MinFromTime :: "int \<Rightarrow> int" where
  "MinFromTime t = (t div msPerMinute) mod 60"

definition SecFromTime :: "int \<Rightarrow> int" where
  "SecFromTime t = (t div msPerSecond) mod 60"

definition msFromTime :: "int \<Rightarrow> int" where
  "msFromTime t = t mod msPerSecond"

definition MakeTime :: "int \<Rightarrow> int \<Rightarrow> int \<Rightarrow> int \<Rightarrow> int" where
  "MakeTime hour minute sec ms = hour * msPerHour + minute * msPerMinute + sec * msPerSecond + ms"

definition MakeDate :: "int \<Rightarrow> int \<Rightarrow> int" where
  "MakeDate day time = day * msPerDay + time"

text \<open>\<open>date.setHours(hour, min, sec, ms)\<close>; a NaN argument gives an invalid Date.\<close>

definition setHours4 ::
    "zone \<Rightarrow> timevalue option \<Rightarrow> int option \<Rightarrow> int option \<Rightarrow> int \<Rightarrow> int \<Rightarrow> timevalue option" where
  "setHours4 tz date hour minute sec ms =
     (case (date, hour, minute) of
        (Some t, Some h, Some m) \<Rightarrow>
          TimeClip (UTC tz (MakeDate (Day (LocalTime tz t)) (MakeTime h m sec ms)))
      | _ \<Rightarrow> None)"

definition getHours :: "zone \<Rightarrow> timevalue option \<Rightarrow> int option" where
  "getHours tz date = map_option (\<lambda>t. HourFromTime (LocalTime tz t)) date"

text \<open>\<open>date.setHours(hour)\<close> keeps the minutes, seconds and milliseconds of the date.\<close>

definition setHours1 :: "zone \<Rightarrow> timevalue option \<Rightarrow> int option \<Rightarrow> timevalue option" where
  "setHours1 tz date hour =
     (case (date, hour) of
        (Some t, Some h) \<Rightarrow>
          (let l = LocalTime tz t in
           TimeClip (UTC tz (MakeDate (Day l)
             (MakeTime h (MinFromTime l) (SecFromTime l) (msFromTime l)))))
      | _ \<Rightarrow> None)"

text \<open>
  \<open>Number(s)\<close> on the strings a time field holds: surrounding white space is dropped,
  the empty string is 0, a string of decimal digits is its value. Every other string is
  NaN here (\<open>None\<close>); the signed, fractional, exponent and hexadecimal literals that
  \<open>Number\<close> also reads are outside this model.
\<close>

definition digit_val :: "char \<Rightarrow> int option" where
  "digit_val c =
     (let n = (of_char c :: nat) in if 48 \<le> n \<and> n \<le> 57 then Some (int n - 48) else None)"

fun digits_val :: "int \<Rightarrow> string \<Rightarrow> int option" where
  "digits_val acc [] = Some acc"
| "digits_val acc (c # cs) =
     (case digit_val c of None \<Rightarrow> None | Some d \<Rightarrow> digits_val (acc * 10 + d) cs)"

definition Number_of_string :: "string \<Rightarrow> int option" where
  "Number_of_string s = digits_val 0 (trim s)"

text \<open>
  \<open>const [hour, minute] = job.timeStart.split(':').map(Number)\<close>: a missing second
  part is \<open>undefined\<close>, which \<open>setHours\<close> reads as NaN.
\<close>

definition timeStart_parts :: "string \<Rightarrow> int option \<times> int option" where
  "timeStart_parts timeStart =
     (case map Number_of_string (split_on CHR '':'' timeStart) of
        [] \<Rightarrow> (None, None)
      | [hour] \<Rightarrow> (hour, None)
      | hour # minute # rest \<Rightarrow> (hour, minute))"

section \<open>Worker routes: job-location\<close>

record disclosure =
  available :: bool
  exactLocation :: "(number option \<times> number option) option"
  exactAddress :: "string option"
  d_message :: "string option"
  revealTime :: "timevalue option option"

text \<open>\<open>xs[i]\<close> of JavaScript: \<open>undefined\<close> outside the array.\<close>

definition nth_opt :: "'a list \<Rightarrow> nat \<Rightarrow> 'a option" where
  "nth_opt xs i = (if i < length xs then Some (xs ! i) else None)"

definition jobStart :: "zone \<Rightarrow> job \<Rightarrow> timevalue option" where
  "jobStart tz j =
     (let (hour, minute) = timeStart_parts (j_timeStart j)
      in setHours4 tz (Some (j_deadline j)) hour minute 0 0)"

definition reveal_time :: "zone \<Rightarrow> job \<Rightarrow> timevalue option" where
  "reveal_time tz j =
     (let jobDate = jobStart tz j
      in setHours1 tz jobDate (map_option (\<lambda>h. h - 3) (getHours tz jobDate)))"

text \<open>\<open>now >= revealTime\<close>: false when \<open>revealTime\<close> is an invalid Date.\<close>

definition now_reached :: "timevalue \<Rightarrow> timevalue option \<Rightarrow> bool" where
  "now_reached now date = (case date of None \<Rightarrow> False | Some t \<Rightarrow> t \<le> now)"

text \<open>
  The exact position is read from the job's location: on a job without one the read
  throws, and the handler's \<open>catch\<close> answers 500. The paths of the response that are
  \<open>undefined\<close> are left out of the JSON, as the absent ones are.
\<close>

definition check_location :: "zone \<Rightarrow> timevalue \<Rightarrow> job \<Rightarrow> disclosure response" where
  "check_location tz now j =
     (let revealTime = reveal_time tz j in
      if now_reached now revealTime
      then (case j_location j of
              None \<Rightarrow> Failure 500 ''Failed to check job location''
            | Some p \<Rightarrow>
                Success \<lparr>available = True,
                         exactLocation = Some (nth_opt (coordinates p) 1, nth_opt (coordinates p) 0),
                         exactAddress = j_address j,
                         d_message = None,
                         revealTime = None\<rparr>)
      else Success \<lparr>available = False,
                    exactLocation = None,
                    exactAddress = None,
                    d_message = Some ''Exact location will be available 3 hours before the job starts'',
                    revealTime = Some revealTime\<rparr>)"

text \<open>
  The handler, behind \<open>isWorker\<close>. \<open>jobId\<close> is \<open>None\<close> when the route parameter is not
  a valid ObjectId.
\<close>

definition job_location ::
    "zone \<Rightarrow> timevalue \<Rightarrow> user \<Rightarrow> job list \<Rightarrow> objid option \<Rightarrow> disclosure response" where
  "job_location tz now u jobs jobId =
     (if u_userType u \<noteq> ''worker'' then Failure 403 ''Access denied. Worker only route.''
      else case jobId of
        None \<Rightarrow> Failure 400 ''Invalid job ID''
      | Some jid \<Rightarrow>
          (case find (\<lambda>j. j_id j = jid \<and> j_worker j = Some (u_id u)
                            \<and> j_status j \<in> set [in_progress, pending]) jobs of
             None \<Rightarrow> Failure 404 ''Job not found or not assigned to you''
           | Some j \<Rightarrow> check_location tz now j))"

section \<open>Job controller: acceptJob and addReview\<close>

text \<open>
  \<open>acceptJob\<close> of the controller; the route \<open>POST /:id/accept\<close> has the same body and
  differs in the shape of the JSON only. The result is the response and the jobs
  collection after the call.
\<close>

definition acceptJob :: "user \<Rightarrow> objid \<Rightarrow> job list \<Rightarrow> job response \<times> job list" where
  "acceptJob u jid jobs =
     (if u_userType u \<noteq> ''worker'' then (Failure 403 ''Only workers can accept jobs'', jobs)
      else case find (\<lambda>j. j_id j = jid) jobs of
        None \<Rightarrow> (Failure 404 ''Job not found'', jobs)
      | Some j \<Rightarrow>
          if j_status j \<noteq> pending \<or> j_worker j \<noteq> None
          then (Failure 400 ''Job is no longer available'', jobs)
          else (let j' = j\<lparr>j_worker := Some (u_id u), j_status := in_progress\<rparr>
                in (Success j', update_first (\<lambda>x. j_id x = jid) (\<lambda>x. j') jobs)))"

text \<open>
  \<open>rating\<close> and \<open>review\<close> are not paths of the job schema. Assigning them on the
  document changes nothing of what \<open>save\<close> writes, and on a document that a query
  returns \<open>job.rating\<close> reads \<open>undefined\<close>.
\<close>

definition doc_rating :: "job \<Rightarrow> real option" where
  "doc_rating j = None"

text \<open>
  The filter \<open>{ worker: job.worker, rating: { $exists: true } }\<close> names the undeclared
  path. With the option \<open>strictQuery\<close> the condition on it is dropped and the jobs of the
  worker are found; without it the condition stays, and no stored document has the path.
\<close>

definition find_rated_jobs :: "bool \<Rightarrow> objid option \<Rightarrow> job list \<Rightarrow> job list" where
  "find_rated_jobs strictQuery wk jobs =
     (if strictQuery then filter (\<lambda>x. j_worker x = wk) jobs else [])"

text \<open>
  \<open>workerJobs.reduce((acc, job) => acc + job.rating, 0) / workerJobs.length\<close>: a sum
  with an \<open>undefined\<close> rating is NaN (\<open>None\<close>), and so is 0 / 0.
\<close>

definition add_rating :: "real option \<Rightarrow> job \<Rightarrow> real option" where
  "add_rating acc j =
     (case (acc, doc_rating j) of (Some a, Some r) \<Rightarrow> Some (a + r) | _ \<Rightarrow> None)"

definition averageRating :: "job list \<Rightarrow> number" where
  "averageRating workerJobs =
     (if length workerJobs = 0 then NaN
      else case foldl add_rating (Some 0) workerJobs of
             None \<Rightarrow> NaN
           | Some ratingSum \<Rightarrow> Fin (ratingSum / real (length workerJobs)))"

text \<open>
  The update \<open>{ rating: averageRating }\<close> is cast to the Number path of the user: NaN
  does not cast, and \<open>findByIdAndUpdate\<close> throws. The text of the error is the
  library's.
\<close>

definition cast_Number :: "number \<Rightarrow> number option" where
  "cast_Number n = (if isNaN n then None else Some n)"

definition cast_error :: string where
  "cast_error = ''Cast to Number failed for value NaN (type number) at path rating''"

text \<open>
  \<open>addReview\<close> of the controller; the route \<open>POST /:id/review\<close> has the same body. The
  result is the response, the jobs and the users after the call; an error thrown after the
  guards is caught and answered with status 400.
\<close>

definition addReview ::
    "bool \<Rightarrow> user \<Rightarrow> objid \<Rightarrow> real option \<Rightarrow> string option \<Rightarrow> job list \<Rightarrow> user list
       \<Rightarrow> job response \<times> job list \<times> user list" where
  "addReview strictQuery u jid rating review jobs users =
     (case find (\<lambda>j. j_id j = jid) jobs of
        None \<Rightarrow> (Failure 404 ''Job not found'', jobs, users)
      | Some j \<Rightarrow>
          if j_user j \<noteq> u_id u then (Failure 403 ''Not authorized'', jobs, users)
          else if j_status j \<noteq> completed
          then (Failure 400 ''Can only review completed jobs'', jobs, users)
          else
            (let workerJobs = find_rated_jobs strictQuery (j_worker j) jobs;
                 average = averageRating workerJobs
             in case cast_Number average of
                  None \<Rightarrow> (Failure 400 cast_error, jobs, users)
                | Some v \<Rightarrow>
                    (Success j, jobs,
                     update_first (\<lambda>x. Some (u_id x) = j_worker j)
                       (\<lambda>x. x\<lparr>u_rating := v\<rparr>) users)))"

section \<open>Job creation: the location step\<close>

text \<open>
  \<open>createJob\<close> up to the location object it stores, and the validator of the
  \<open>coordinates\<close> path of the job schema that the save then runs on it.
\<close>

definition createJob_location :: "('raw \<Rightarrow> number) \<Rightarrow> user \<Rightarrow> 'raw \<Rightarrow> 'raw \<Rightarrow> geo_point response" where
  "createJob_location pf u latitude longitude =
     (if u_userType u \<noteq> ''client'' then Failure 403 ''Only clients can create jobs''
      else case validateCoordinates pf latitude longitude of
        None \<Rightarrow> Failure 400 ''Invalid coordinates. Please provide valid latitude and longitude.''
      | Some locationObj \<Rightarrow> Success locationObj)"

text \<open>
  The route \<open>POST /create\<close> of the job routes builds the location itself and guards it
  by truthiness: \<open>!coordinates[0] || !coordinates[1]\<close>. NaN and 0 are the falsy
  Numbers.
\<close>

definition falsy :: "number \<Rightarrow> bool" where
  "falsy n = (n = NaN \<or> n = Fin 0)"

definition route_create_location :: "('raw \<Rightarrow> number) \<Rightarrow> user \<Rightarrow> 'raw \<Rightarrow> 'raw \<Rightarrow> geo_point response" where
  "route_create_location pf u latitude longitude =
     (if u_userType u \<noteq> ''client'' then Failure 403 ''Only clients can post jobs''
      else (let location = \<lparr>ptype = ''Point'', coordinates = [pf longitude, pf latitude]\<rparr>
            in if falsy (coordinates location ! 0) \<or> falsy (coordinates location ! 1)
               then Failure 400 ''Invalid coordinates''
               else Success location))"

text \<open>\<open>a >= b\<close> and \<open>a <= b\<close> on Numbers.\<close>

fun num_le :: "number \<Rightarrow> number \<Rightarrow> bool" where
  "num_le NaN _ = False"
| "num_le _ NaN = False"
| "num_le (Fin a) (Fin b) = (a \<le> b)"
| "num_le NegInf _ = True"
| "num_le _ PosInf = True"
| "num_le PosInf _ = False"
| "num_le (Fin a) NegInf = False"

definition job_coordinates_validator :: "number list \<Rightarrow> bool" where
  "job_coordinates_validator v =
     (length v = 2 \<and> num_le (Fin (- 180)) (v ! 0) \<and> num_le (v ! 0) (Fin 180)
      \<and> num_le (Fin (- 90)) (v ! 1) \<and> num_le (v ! 1) (Fin 90))"

section \<open>The specification's notions\<close>

text \<open>Two strings are equal up to the case of their letters.\<close>

definition ci_equal :: "string \<Rightarrow> string \<Rightarrow> bool" where
  "ci_equal a b = (toLowerCase a = toLowerCase b)"

text \<open>
  A zone whose offset from UTC is the same at every time. There, the day of the deadline
  in local time combined with the clock time \<open>h:m\<close>, and the moment three hours
  before it.
\<close>

definition fixed_zone :: "int \<Rightarrow> zone" where
  "fixed_zone c = \<lparr>tza_utc = (\<lambda>t. c), tza_local = (\<lambda>t. c)\<rparr>"

definition spec_jobStart :: "int \<Rightarrow> timevalue \<Rightarrow> int \<Rightarrow> int \<Rightarrow> timevalue" where
  "spec_jobStart c D h m = Day (D + c) * msPerDay + h * msPerHour + m * msPerMinute - c"

definition spec_revealTime :: "int \<Rightarrow> timevalue \<Rightarrow> int \<Rightarrow> int \<Rightarrow> timevalue" where
  "spec_revealTime c D h m = spec_jobStart c D h m - 3 * msPerHour"

text \<open>The string \<open>HH:MM\<close> of an hour and a minute, two decimal digits each.\<close>

definition digit_char :: "nat \<Rightarrow> char" where
  "digit_char d = char_of (48 + d)"

definition hhmm :: "nat \<Rightarrow> nat \<Rightarrow> string" where
  "hhmm h m = [digit_char (h div 10), digit_char (h mod 10), CHR '':'',
               digit_char (m div 10), digit_char (m mod 10)]"

text \<open>The job with the given id is assigned to the user and still active.\<close>

definition assigned_active :: "user \<Rightarrow> objid \<Rightarrow> job \<Rightarrow> bool" where
  "assigned_active u jid j =
     (j_id j = jid \<and> j_worker j = Some (u_id u) \<and> (j_status j = in_progress \<or> j_status j = pending))"

text \<open>An address without its first comma-delimited segment.\<close>

definition without_first_segment :: "string \<Rightarrow> string" where
  "without_first_segment a = join '','' (drop 1 (split_on CHR '','' a))"

text \<open>The text of an address behind its first comma.\<close>

definition after_first_comma :: "string \<Rightarrow> string" where
  "after_first_comma a = drop 1 (dropWhile (\<lambda>c. c \<noteq> CHR '','') a)"

section \<open>Sample documents\<close>

definition centre0 :: geo_point where
  "centre0 = \<lparr>ptype = ''Point'', coordinates = [Fin 77.23, Fin 28.65]\<rparr>"

text \<open>
  A geospatial predicate for the examples: a point at the centre itself lies within
  every positive distance of it.
\<close>

definition near_centre :: "geo_point \<Rightarrow> number \<Rightarrow> geo_point \<Rightarrow> bool" where
  "near_centre centre metres p = (coordinates p = coordinates centre \<and> num_less (Fin 0) metres)"

definition job0 :: job where
  "job0 = \<lparr>j_id = 42, j_title = ''Fix Bathroom Leak'', j_category = Some ''plumbing'',
           j_location = Some centre0,
           j_address = Some ''A-15, Vasant Kunj, New Delhi'', j_deadline = 1700000000000,
           j_timeStart = ''10:00'', j_status = pending, j_user = 3, j_worker = None,
           j_createdAt = 1699000000000\<rparr>"

definition job1 :: job where
  "job1 = \<lparr>j_id = 43, j_title = ''Electrical Wiring Installation'', j_category = Some ''electrical'',
           j_location = Some centre0,
           j_address = Some ''221B Baker Street'', j_deadline = 1700000000000,
           j_timeStart = ''14:00'', j_status = pending, j_user = 3, j_worker = None,
           j_createdAt = 1699000000000\<rparr>"

text \<open>Job 42 once worker 7 has accepted it, and a completed job of worker 7.\<close>

definition job0_accepted :: job where
  "job0_accepted = job0\<lparr>j_status := in_progress, j_worker := Some 7\<rparr>"

definition done_job :: "objid \<Rightarrow> job" where
  "done_job jid = job0\<lparr>j_id := jid, j_status := completed, j_worker := Some 7\<rparr>"

definition wA :: worker where
  "wA = \<lparr>w_id = 1, w_user = 7, w_skills = [''Plumbing repair''], w_serviceRadius = Some (Fin 15),
         w_location = Some centre0, w_notifications = [],
         w_categories = [''general'']\<rparr>"


definition wC :: worker where
  "wC = \<lparr>w_id = 3, w_user = 9, w_skills = [''Plumbing'', ''welding''], w_serviceRadius = Some (Fin 50),
         w_location = None, w_notifications = [], w_categories = []\<rparr>"

definition wE :: worker where
  "wE = \<lparr>w_id = 4, w_user = 7, w_skills = [], w_serviceRadius = Some (Fin 50),
         w_location = Some centre0, w_notifications = [],
         w_categories = []\<rparr>"

definition wP :: worker where
  "wP = \<lparr>w_id = 5, w_user = 7, w_skills = [''plumbing''], w_serviceRadius = Some (Fin 50),
         w_location = Some centre0, w_notifications = [],
         w_categories = [''plumbing'']\<rparr>"

definition uW :: user where
  "uW = \<lparr>u_id = 7, u_userType = ''worker'', u_rating = Fin 0\<rparr>"

definition uClient :: user where
  "uClient = \<lparr>u_id = 3, u_userType = ''client'', u_rating = Fin 0\<rparr>"


text \<open>
  An arithmetic for the examples, none of which depends on it: the operations of the
  reals on finite numbers, NaN elsewhere.
\<close>

definition lift1 :: "(real \<Rightarrow> real) \<Rightarrow> number \<Rightarrow> number" where
  "lift1 f x = (case x of Fin a \<Rightarrow> Fin (f a) | _ \<Rightarrow> NaN)"

definition lift2 :: "(real \<Rightarrow> real \<Rightarrow> real) \<Rightarrow> number \<Rightarrow> number \<Rightarrow> number" where
  "lift2 f x y = (case x of Fin a \<Rightarrow> (case y of Fin b \<Rightarrow> Fin (f a b) | _ \<Rightarrow> NaN) | _ \<Rightarrow> NaN)"

definition sample_arith :: arith where
  "sample_arith =
     \<lparr>fp_add = lift2 (\<lambda>a b. a + b), fp_sub = lift2 (\<lambda>a b. a - b),
      fp_mul = lift2 (\<lambda>a b. a * b), fp_div = lift2 (\<lambda>a b. a / b),
      Math_sin = lift1 sin, Math_cos = lift1 cos,
      Math_sqrt = (\<lambda>x. case x of Fin a \<Rightarrow> if a < 0 then NaN else Fin (sqrt a) | _ \<Rightarrow> NaN),
      Math_atan2 = lift2 (\<lambda>y x. if 0 < x then arctan (y / x) else if x < 0 then
                                   (if 0 \<le> y then arctan (y / x) + pi else arctan (y / x) - pi)
                                 else if 0 < y then pi / 2 else if y < 0 then - (pi / 2) else 0),
      Math_round = lift1 (\<lambda>x. of_int \<lfloor>x + 1 / 2\<rfloor>),
      Math_PI = Fin pi\<rparr>"

text \<open>
  The zone of New York from November 2023 to March 2025: four hours behind UTC from
  10 March 2024, 07:00 UTC, to 3 November 2024, 06:00 UTC, and five hours behind
  otherwise. In local time the clocks go from 02:00 to 03:00 on 10 March and from 02:00
  back to 01:00 on 3 November.
\<close>

definition new_york :: zone where
  "new_york =
     \<lparr>tza_utc = (\<lambda>t. if 1710054000000 \<le> t \<and> t < 1730613600000 then - 14400000 else - 18000000),
      tza_local = (\<lambda>t. if 1710039600000 \<le> t \<and> t < 1730599200000 then - 14400000 else - 18000000)\<rparr>"

text \<open>
  A job of worker 7 with the deadline 3 November 2024, 12:00 UTC, and the start time
  04:00.
\<close>

definition job_ny :: job where
  "job_ny = job0\<lparr>j_deadline := 1730635200000, j_timeStart := ''04:00'',
                 j_status := in_progress, j_worker := Some 7\<rparr>"

section \<open>Claims\<close>

subsection \<open>Coordinate validation\<close>

lemma not_out_of_range_iff:
  "(\<not> isNaN n \<and> \<not> num_less n (Fin lo) \<and> \<not> num_less (Fin hi) n) = in_interval lo hi n"
  by (cases n) (auto simp: in_interval_def)

text \<open>
  Claim C1. For every pair of raw inputs, coordinate validation returns \<open>null\<close> when
  either parsed value is not a number, the latitude is outside [-90, 90] or the longitude
  is outside [-180, 180]; otherwise it returns the point whose coordinates array is
  [lng, lat], longitude first. The function is total: it has no failing branch.
\<close>

theorem validateCoordinates_spec:
  "(\<not> (valid_latitude (pf latRaw) \<and> valid_longitude (pf lngRaw))
      \<longrightarrow> validateCoordinates pf latRaw lngRaw = None)
   \<and> (valid_latitude (pf latRaw) \<and> valid_longitude (pf lngRaw)
      \<longrightarrow> validateCoordinates pf latRaw lngRaw
            = Some \<lparr>ptype = ''Point'', coordinates = [pf lngRaw, pf latRaw]\<rparr>)"
proof -
  have lat: "valid_latitude (pf latRaw)
      = (\<not> isNaN (pf latRaw) \<and> \<not> num_less (pf latRaw) (Fin (- 90)) \<and> \<not> num_less (Fin 90) (pf latRaw))"
    unfolding valid_latitude_def by (rule not_out_of_range_iff [symmetric])
  have lng: "valid_longitude (pf lngRaw)
      = (\<not> isNaN (pf lngRaw) \<and> \<not> num_less (pf lngRaw) (Fin (- 180)) \<and> \<not> num_less (Fin 180) (pf lngRaw))"
    unfolding valid_longitude_def by (rule not_out_of_range_iff [symmetric])
  show ?thesis
    unfolding lat lng by (auto simp: validateCoordinates_def Let_def)
qed

theorem validateCoordinates_spec_witness:
  "validateCoordinates id (Fin 28.6139) (Fin 77.209)
     = Some \<lparr>ptype = ''Point'', coordinates = [Fin 77.209, Fin 28.6139]\<rparr>
   \<and> validateCoordinates id (Fin 91) (Fin 77.209) = None
   \<and> validateCoordinates id (Fin 28.6139) NaN = None"
  using validateCoordinates_spec [of id "Fin 28.6139" "Fin 77.209"]
        validateCoordinates_spec [of id "Fin 91" "Fin 77.209"]
        validateCoordinates_spec [of id "Fin 28.6139" NaN]
  by (simp add: valid_latitude_def valid_longitude_def in_interval_def)

subsection \<open>Categories derived from skills\<close>

lemma skill_category_match:
  assumes "cat \<in> set validCategories" "ci_equal cat skill"
  shows "skill_category skill \<in> set validCategories \<and> ci_equal (skill_category skill) skill"
proof -
  from assms have "find (\<lambda>cat. toLowerCase cat = toLowerCase skill) validCategories \<noteq> None"
    by (auto simp: find_None_iff ci_equal_def)
  then obtain m where m: "find (\<lambda>cat. toLowerCase cat = toLowerCase skill) validCategories = Some m"
    by auto
  then have "m \<in> set validCategories \<and> toLowerCase m = toLowerCase skill"
    by (auto simp: find_Some_iff)
  with m show ?thesis by (simp add: skill_category_def ci_equal_def)
qed

lemma skill_category_nomatch:
  assumes "\<not> (\<exists>cat \<in> set validCategories. ci_equal cat skill)"
  shows "skill_category skill = ''general''"
proof -
  from assms have "find (\<lambda>cat. toLowerCase cat = toLowerCase skill) validCategories = None"
    by (auto simp: find_None_iff ci_equal_def)
  then show ?thesis by (simp add: skill_category_def)
qed

text \<open>
  Claim C8. When a worker profile is saved with no category and at least one skill, the
  categories become one per skill, in order: the category of the enumeration that equals
  the skill up to case when there is one, \<open>general\<close> otherwise. When the profile has a
  category already, the save leaves the profile as it is.
\<close>

theorem pre_save_categories:
  "(w_categories w = [] \<and> w_skills w \<noteq> [] \<longrightarrow>
      length (w_categories (pre_save w)) = length (w_skills w)
      \<and> (\<forall>i < length (w_skills w).
           let skill = w_skills w ! i; c = w_categories (pre_save w) ! i in
           if \<exists>cat \<in> set validCategories. ci_equal cat skill
           then c \<in> set validCategories \<and> ci_equal c skill
           else c = ''general''))
   \<and> (w_categories w \<noteq> [] \<longrightarrow> pre_save w = w)"
  by (auto simp: pre_save_def Let_def skill_category_nomatch dest: skill_category_match)

theorem pre_save_categories_witness:
  "w_categories (pre_save wC) ! 0 \<in> set validCategories
   \<and> ci_equal (w_categories (pre_save wC) ! 0) ''Plumbing''
   \<and> w_categories (pre_save wC) ! 1 = ''general''
   \<and> pre_save wA = wA"
proof -
  have m0: "\<exists>cat \<in> set validCategories. ci_equal cat ''Plumbing''" by code_simp
  have m1: "\<not> (\<exists>cat \<in> set validCategories. ci_equal cat ''welding'')" by code_simp
  have "\<forall>i < 2. let skill = w_skills wC ! i; c = w_categories (pre_save wC) ! i in
           if \<exists>cat \<in> set validCategories. ci_equal cat skill
           then c \<in> set validCategories \<and> ci_equal c skill
           else c = ''general''"
    using pre_save_categories [of wC] by (simp add: wC_def)
  then have "(let skill = w_skills wC ! 0; c = w_categories (pre_save wC) ! 0 in
           if \<exists>cat \<in> set validCategories. ci_equal cat skill
           then c \<in> set validCategories \<and> ci_equal c skill
           else c = ''general'')
      \<and> (let skill = w_skills wC ! 1; c = w_categories (pre_save wC) ! 1 in
           if \<exists>cat \<in> set validCategories. ci_equal cat skill
           then c \<in> set validCategories \<and> ci_equal c skill
           else c = ''general'')"
    by simp
  moreover have "w_skills wC ! 0 = ''Plumbing''" "w_skills wC ! 1 = ''welding''"
    by (simp_all add: wC_def)
  ultimately have "w_categories (pre_save wC) ! 0 \<in> set validCategories
      \<and> ci_equal (w_categories (pre_save wC) ! 0) ''Plumbing''
      \<and> w_categories (pre_save wC) ! 1 = ''general''"
    using m0 m1 by (simp add: Let_def)
  moreover have "pre_save wA = wA"
    using pre_save_categories [of wA] by (simp add: wA_def)
  ultimately show ?thesis by simp
qed

subsection \<open>Notification dispatch\<close>





subsection \<open>Location disclosure\<close>

lemma LocalTime_fixed: "LocalTime (fixed_zone c) t = t + c"
  by (simp add: LocalTime_def fixed_zone_def)

lemma UTC_fixed: "UTC (fixed_zone c) t = t - c"
  by (simp add: UTC_def fixed_zone_def)

lemma time_decompose:
  "MakeDate (Day l) (MakeTime (HourFromTime l) (MinFromTime l) (SecFromTime l) (msFromTime l)) = l"
proof -
  have s: "l mod 60000 = 1000 * ((l div 1000) mod 60) + l mod 1000"
    using zmod_zmult2_eq [of 60 l 1000] by simp
  have m: "l mod 3600000 = 60000 * ((l div 60000) mod 60) + l mod 60000"
    using zmod_zmult2_eq [of 60 l 60000] by simp
  have h: "l mod 86400000 = 3600000 * ((l div 3600000) mod 24) + l mod 3600000"
    using zmod_zmult2_eq [of 24 l 3600000] by simp
  have d: "l = 86400000 * (l div 86400000) + l mod 86400000" by simp
  show ?thesis
    unfolding MakeDate_def MakeTime_def Day_def HourFromTime_def MinFromTime_def SecFromTime_def
      msFromTime_def msPerDay_def msPerHour_def msPerMinute_def msPerSecond_def
    using s m h d by linarith
qed

lemma setHours_minus3:
  "MakeDate (Day l) (MakeTime (HourFromTime l - 3) (MinFromTime l) (SecFromTime l) (msFromTime l))
     = l - 3 * msPerHour"
  using time_decompose [of l] by (simp add: MakeDate_def MakeTime_def algebra_simps)

lemma of_char_digit: "d < 10 \<Longrightarrow> (of_char (digit_char d) :: nat) = 48 + d"
  by (simp add: digit_char_def)

lemma digit_not_colon: "d < 10 \<Longrightarrow> digit_char d \<noteq> CHR '':''"
proof
  assume d: "d < 10" and "digit_char d = CHR '':''"
  then have "(of_char (digit_char d) :: nat) = of_char CHR '':''" by simp
  with d show False by (simp add: of_char_digit)
qed

lemma digit_not_space: "d < 10 \<Longrightarrow> \<not> is_space (digit_char d)"
  by (simp add: is_space_def of_char_digit)

lemma digit_val_digit: "d < 10 \<Longrightarrow> digit_val (digit_char d) = Some (int d)"
  by (simp add: digit_val_def of_char_digit)

lemma Number_two_digits:
  assumes "a < 10" "b < 10"
  shows "Number_of_string [digit_char a, digit_char b] = Some (int (10 * a + b))"
  using assms
  by (simp add: Number_of_string_def trim_def digit_not_space digit_val_digit)

lemma timeStart_parts_hhmm:
  assumes "h < 100" "m < 100"
  shows "timeStart_parts (hhmm h m) = (Some (int h), Some (int m))"
proof -
  have d: "h div 10 < 10" "h mod 10 < 10" "m div 10 < 10" "m mod 10 < 10"
    using assms by simp_all
  have sp: "split_on CHR '':'' (hhmm h m)
      = [[digit_char (h div 10), digit_char (h mod 10)], [digit_char (m div 10), digit_char (m mod 10)]]"
    using d by (simp add: hhmm_def digit_not_colon)
  have "10 * (h div 10) + h mod 10 = h" "10 * (m div 10) + m mod 10 = m" by simp_all
  then show ?thesis
    unfolding timeStart_parts_def sp
    using Number_two_digits [OF d(1,2)] Number_two_digits [OF d(3,4)] by simp
qed

lemma start_bounds:
  assumes D: "\<bar>D\<bar> \<le> 8640000000000000 - 2 * msPerDay" and h: "0 \<le> h" "h < 24" and m: "0 \<le> m" "m < 60"
  shows "\<bar>spec_jobStart c D h m\<bar> \<le> 8640000000000000"
    and "\<bar>spec_revealTime c D h m\<bar> \<le> 8640000000000000"
proof -
  have dm: "D + c = (D + c) div 86400000 * 86400000 + (D + c) mod 86400000" by simp
  have r: "0 \<le> (D + c) mod 86400000" "(D + c) mod 86400000 < 86400000" by simp_all
  have hm: "0 \<le> h * 3600000 + m * 60000" "h * 3600000 + m * 60000 < 86400000"
    using h m by simp_all
  show "\<bar>spec_jobStart c D h m\<bar> \<le> 8640000000000000"
    using D dm r hm
    unfolding spec_jobStart_def Day_def msPerDay_def msPerHour_def msPerMinute_def
    by linarith
  show "\<bar>spec_revealTime c D h m\<bar> \<le> 8640000000000000"
    using D dm r hm
    unfolding spec_revealTime_def spec_jobStart_def Day_def msPerDay_def msPerHour_def
      msPerMinute_def
    by linarith
qed

lemma reveal_time_eq:
  assumes parts: "timeStart_parts (j_timeStart j) = (Some h, Some m)"
    and r1: "\<bar>spec_jobStart c (j_deadline j) h m\<bar> \<le> 8640000000000000"
    and r2: "\<bar>spec_revealTime c (j_deadline j) h m\<bar> \<le> 8640000000000000"
  shows "reveal_time (fixed_zone c) j = Some (spec_revealTime c (j_deadline j) h m)"
proof -
  have mk: "MakeDate (Day (j_deadline j + c)) (MakeTime h m 0 0)
      = Day (j_deadline j + c) * msPerDay + h * msPerHour + m * msPerMinute"
    by (simp add: MakeDate_def MakeTime_def)
  have js: "jobStart (fixed_zone c) j = Some (spec_jobStart c (j_deadline j) h m)"
    using r1
    by (simp add: jobStart_def parts setHours4_def LocalTime_fixed UTC_fixed mk TimeClip_def
        spec_jobStart_def)
  have "spec_jobStart c (j_deadline j) h m + c - 3 * msPerHour - c
      = spec_revealTime c (j_deadline j) h m"
    by (simp add: spec_revealTime_def)
  then show ?thesis
    using r2
    by (simp add: reveal_time_def js getHours_def setHours1_def Let_def LocalTime_fixed UTC_fixed
        setHours_minus3 TimeClip_def)
qed

text \<open>
  In a zone whose offset never changes the handler keeps to the three hours: for a job
  assigned to the worker and still active, with a location and the start time \<open>HH:MM\<close>,
  the location is available exactly from the day of the deadline combined with \<open>HH:MM\<close>,
  minus three hours, and before that the response carries that reveal time and neither
  coordinates nor address.
\<close>

lemma disclosure_gate_fixed_offset:
  assumes "u_userType u = ''worker''"
    and "find (assigned_active u jid) jobs = Some j"
    and "j_location j = Some p"
    and "j_timeStart j = hhmm h m" and "h < 24" and "m < 60"
    and "\<bar>j_deadline j\<bar> \<le> 8640000000000000 - 2 * msPerDay"
  shows "\<exists>d. job_location (fixed_zone c) now u jobs (Some jid) = Success d
           \<and> (available d \<longleftrightarrow> spec_revealTime c (j_deadline j) (int h) (int m) \<le> now)
           \<and> (\<not> available d \<longrightarrow>
                 revealTime d = Some (Some (spec_revealTime c (j_deadline j) (int h) (int m)))
                 \<and> exactLocation d = None \<and> exactAddress d = None)"
proof -
  have f: "find (\<lambda>j. j_id j = jid \<and> j_worker j = Some (u_id u)
                 \<and> j_status j \<in> set [in_progress, pending]) jobs = Some j"
    using assms(2) by (simp add: assigned_active_def [abs_def] disj_commute)
  have parts: "timeStart_parts (j_timeStart j) = (Some (int h), Some (int m))"
    using assms(4,5,6) by (simp add: timeStart_parts_hhmm)
  have rt: "reveal_time (fixed_zone c) j = Some (spec_revealTime c (j_deadline j) (int h) (int m))"
    using assms(5,6) start_bounds [OF assms(7), of "int h" "int m" c]
    by (intro reveal_time_eq [OF parts]) simp_all
  show ?thesis
    using assms(1,3) f rt
    by (simp add: job_location_def check_location_def Let_def now_reached_def)
qed

text \<open>
  Claim C2. The location is to be available from three hours before the start, as the
  claim says and as the handler's own message does; the handler takes three from the hour
  on the clock instead. On the day the clocks of New York go back, 3 November 2024, a job
  with the start time 04:00 starts at 09:00 UTC, and the hour 01:00 that the handler sets
  is read as the first 01:00 of that day, 05:00 UTC, four hours before the start: asked at
  05:30 UTC, half an hour before the three-hour mark, the handler gives the location.
\<close>

theorem disclosure_gate_clock_change:
  "jobStart new_york job_ny = Some 1730624400000
   \<and> reveal_time new_york job_ny = Some 1730610000000
   \<and> (1730611800000 :: int) < 1730624400000 - 3 * msPerHour
   \<and> job_location new_york 1730611800000 uW [job_ny] (Some 42)
       = Success \<lparr>available = True,
                  exactLocation = Some (Some (Fin 28.65), Some (Fin 77.23)),
                  exactAddress = Some ''A-15, Vasant Kunj, New Delhi'',
                  d_message = None, revealTime = None\<rparr>"
proof -
  have parts: "timeStart_parts (j_timeStart job_ny) = (Some 4, Some 0)"
    by code_simp
  have dl: "j_deadline job_ny = 1730635200000" by (simp add: job_ny_def)
  have js: "jobStart new_york job_ny = Some 1730624400000"
    by (simp add: jobStart_def parts dl setHours4_def LocalTime_def UTC_def new_york_def Day_def
        MakeDate_def MakeTime_def TimeClip_def msPerDay_def msPerHour_def msPerMinute_def
        msPerSecond_def)
  have h: "getHours new_york (Some 1730624400000) = Some 4"
    by (simp add: getHours_def LocalTime_def new_york_def HourFromTime_def msPerHour_def)
  have l: "LocalTime new_york 1730624400000 = 1730606400000"
    by (simp add: LocalTime_def new_york_def)
  have mk: "MakeDate (Day 1730606400000)
        (MakeTime 1 (MinFromTime 1730606400000) (SecFromTime 1730606400000)
           (msFromTime 1730606400000)) = 1730595600000"
    by (simp add: Day_def MinFromTime_def SecFromTime_def msFromTime_def MakeDate_def
        MakeTime_def msPerDay_def msPerHour_def msPerMinute_def msPerSecond_def)
  have u: "UTC new_york 1730595600000 = 1730610000000"
    by (simp add: UTC_def new_york_def)
  have rt: "reveal_time new_york job_ny = Some 1730610000000"
    unfolding reveal_time_def js Let_def h
    by (simp add: setHours1_def l mk u TimeClip_def)
  have f: "j_worker job_ny = Some (u_id uW)" "j_id job_ny = 42" "j_status job_ny = in_progress"
    by (simp_all add: job_ny_def job0_def uW_def)
  have loc: "j_location job_ny = Some centre0"
    and addr: "j_address job_ny = Some ''A-15, Vasant Kunj, New Delhi''"
    by (simp_all add: job_ny_def job0_def)
  have w: "u_userType uW = ''worker''" by (simp add: uW_def)
  have run: "job_location new_york 1730611800000 uW [job_ny] (Some 42)
       = Success \<lparr>available = True,
                  exactLocation = Some (Some (Fin 28.65), Some (Fin 77.23)),
                  exactAddress = Some ''A-15, Vasant Kunj, New Delhi'',
                  d_message = None, revealTime = None\<rparr>"
    unfolding job_location_def check_location_def
    by (simp add: w f rt now_reached_def loc addr nth_opt_def centre0_def)
  from js rt run show ?thesis by (simp add: msPerHour_def)
qed

subsection \<open>Rating aggregation\<close>

lemma foldl_add_rating_None: "foldl add_rating None js = None"
  by (induction js) (simp_all add: add_rating_def)

lemma averageRating_NaN: "averageRating js = NaN"
proof (cases js)
  case Nil
  then show ?thesis by (simp add: averageRating_def)
next
  case (Cons x xs)
  have "add_rating (Some 0) x = None" by (simp add: add_rating_def doc_rating_def)
  with Cons show ?thesis by (simp add: averageRating_def foldl_add_rating_None)
qed

text \<open>
  Claim C3. The aggregate rating of the worker is to become the mean of the ratings of
  the worker's jobs; the handler does not get there. It assigns and queries \<open>rating\<close>,
  a path the job schema does not declare: nothing of the review is stored, the ratings it
  reads back are \<open>undefined\<close> and the average is NaN whatever the jobs, the update of the
  user fails on it, and the answer is 400. Here the poster reviews job 3 of worker 7 with
  the rating 3, with or without \<open>strictQuery\<close>: jobs and users stay as they were, the
  worker's rating at 4.5.
\<close>

theorem addReview_stores_nothing:
  "addReview True uClient 3 (Some 3) (Some ''Good work'')
       [done_job 1, done_job 2, done_job 3] [uW\<lparr>u_rating := Fin 4.5\<rparr>, uClient]
     = (Failure 400 cast_error, [done_job 1, done_job 2, done_job 3],
        [uW\<lparr>u_rating := Fin 4.5\<rparr>, uClient])
   \<and> addReview False uClient 3 (Some 3) (Some ''Good work'')
       [done_job 1, done_job 2, done_job 3] [uW\<lparr>u_rating := Fin 4.5\<rparr>, uClient]
     = (Failure 400 cast_error, [done_job 1, done_job 2, done_job 3],
        [uW\<lparr>u_rating := Fin 4.5\<rparr>, uClient])"
  by (simp add: addReview_def averageRating_NaN cast_Number_def done_job_def job0_def uClient_def)

subsection \<open>Accepting a job\<close>

lemma find_update_first:
  "find P xs = Some x \<Longrightarrow> P (f x) \<Longrightarrow> find P (update_first P f xs) = Some (f x)"
  by (induction xs) (auto split: if_splits)

text \<open>
  Claim C7. Accepting a pending job that has no worker succeeds: the stored job gets the
  caller as its worker and the status \<open>in progress\<close>. A further call by a worker on the
  same job fails with status 400, \<open>Job is no longer available\<close>, and leaves the
  collection, and with it the worker and the status of the job, as they were.
\<close>

theorem acceptJob_twice:
  assumes "u_userType u = ''worker''" and "u_userType u2 = ''worker''"
    and "find (\<lambda>j. j_id j = jid) jobs = Some j"
    and "j_status j = pending" and "j_worker j = None"
  shows "\<exists>jobs'. acceptJob u jid jobs
            = (Success (j\<lparr>j_worker := Some (u_id u), j_status := in_progress\<rparr>), jobs')
         \<and> find (\<lambda>j. j_id j = jid) jobs' = Some (j\<lparr>j_worker := Some (u_id u), j_status := in_progress\<rparr>)
         \<and> acceptJob u2 jid jobs' = (Failure 400 ''Job is no longer available'', jobs')"
proof -
  let ?j' = "j\<lparr>j_worker := Some (u_id u), j_status := in_progress\<rparr>"
  let ?jobs' = "update_first (\<lambda>x. j_id x = jid) (\<lambda>x. ?j') jobs"
  have id: "j_id j = jid" using assms(3) by (auto simp: find_Some_iff)
  have f: "find (\<lambda>j. j_id j = jid) ?jobs' = Some ?j'"
    using assms(3) by (rule find_update_first) (simp add: id)
  have first: "acceptJob u jid jobs = (Success ?j', ?jobs')"
    using assms by (simp add: acceptJob_def Let_def)
  have second: "acceptJob u2 jid ?jobs' = (Failure 400 ''Job is no longer available'', ?jobs')"
    using assms(2) f by (simp add: acceptJob_def)
  from first f second show ?thesis by blast
qed

theorem acceptJob_twice_witness:
  "acceptJob uW 42 [job0] = (Success job0_accepted, [job0_accepted])
   \<and> acceptJob uW 42 [job0_accepted] = (Failure 400 ''Job is no longer available'', [job0_accepted])"
proof -
  have a: "u_userType uW = ''worker''" by (simp add: uW_def)
  have f: "find (\<lambda>j. j_id j = 42) [job0] = Some job0" by (simp add: job0_def)
  have p: "j_status job0 = pending" "j_worker job0 = None" by (simp_all add: job0_def)
  have e: "job0\<lparr>j_worker := Some (u_id uW), j_status := in_progress\<rparr> = job0_accepted"
    by (simp add: job0_accepted_def uW_def job0_def)
  from acceptJob_twice [OF a a f p] obtain jobs' where
    first: "acceptJob uW 42 [job0] = (Success job0_accepted, jobs')"
    and second: "acceptJob uW 42 jobs' = (Failure 400 ''Job is no longer available'', jobs')"
    unfolding e by blast
  have "snd (acceptJob uW 42 [job0]) = [job0_accepted]"
    using a p by (simp add: acceptJob_def job0_def e [symmetric] Let_def)
  with first have "jobs' = [job0_accepted]" by simp
  with first second show ?thesis by simp
qed

subsection \<open>Nearby jobs: what a result carries\<close>

lemma split_on_nonempty: "split_on d s \<noteq> []"
  by (induction s) (auto split: list.splits)

lemma join_split_on: "join [d] (split_on d s) = s"
proof (induction s)
  case Nil
  then show ?case by simp
next
  case (Cons c cs)
  obtain p ps where sp: "split_on d cs = p # ps"
    using split_on_nonempty [of d cs] by (cases "split_on d cs") auto
  with Cons show ?case by (cases ps) auto
qed

lemma length_split_on: "(Suc 0 < length (split_on d s)) = (d \<in> set s)"
proof (induction s)
  case Nil
  then show ?case by simp
next
  case (Cons c cs)
  obtain p ps where sp: "split_on d cs = p # ps"
    using split_on_nonempty [of d cs] by (cases "split_on d cs") auto
  with Cons show ?case by auto
qed

lemma join_drop_split_on:
  "d \<in> set s \<Longrightarrow> join [d] (drop (Suc 0) (split_on d s)) = drop (Suc 0) (dropWhile (\<lambda>c. c \<noteq> d) s)"
proof (induction s)
  case Nil
  then show ?case by simp
next
  case (Cons c cs)
  obtain p ps where sp: "split_on d cs = p # ps"
    using split_on_nonempty [of d cs] by (cases "split_on d cs") auto
  show ?case
  proof (cases "c = d")
    case True
    then show ?thesis by (simp add: join_split_on)
  next
    case False
    with Cons sp show ?thesis by simp
  qed
qed

lemma approximate_location_eq:
  "approximate_location address =
     (case address of
        None \<Rightarrow> None
      | Some a \<Rightarrow> if CHR '','' \<in> set a then Some (trim (after_first_comma a)) else Some a)"
proof (cases address)
  case None
  then show ?thesis by (simp add: approximate_location_def)
next
  case (Some a)
  show ?thesis
  proof (cases "a = []")
    case True
    with Some show ?thesis by (simp add: approximate_location_def)
  next
    case False
    with Some show ?thesis
      using join_drop_split_on [of "CHR '',''" a]
      by (simp add: approximate_location_def Let_def length_split_on after_first_comma_def)
  qed
qed

lemma getApproximateAddress_eq:
  "getApproximateAddress address =
     (case address of
        None \<Rightarrow> ''Unknown''
      | Some a \<Rightarrow> if a = [] then ''Unknown''
                  else if CHR '','' \<in> set a then trim (after_first_comma a) else a)"
  using join_drop_split_on [of "CHR '',''"]
  by (auto simp: getApproximateAddress_def Let_def length_split_on after_first_comma_def
      split: option.splits)

lemma nearby_jobs_Success:
  assumes "nearby_jobs fp near u workers jobs = Success rs"
  obtains w centre where "find (\<lambda>w. w_user w = u_id u) workers = Some w"
    and "w_location w = Some centre"
    and "rs = map (jobWithApproximateLocation fp w centre)
                (take 20 (sort_key (\<lambda>j. - j_createdAt j) (filter (nearby_query near w centre) jobs)))"
  using assms
  by (auto simp: nearby_jobs_def split: if_splits option.splits)

text \<open>
  Claim C6, as stated, fails: for an address without a comma the approximate location
  is the whole address, street included, where removing the first comma-delimited
  segment would leave nothing.
\<close>

theorem nearby_result_counterexample:
  "nearby_jobs sample_arith near_centre uW [wE] [job1] = Success [jobWithApproximateLocation sample_arith wE centre0 job1]
   \<and> j_address job1 = Some ''221B Baker Street''
   \<and> approximateLocation (jobWithApproximateLocation sample_arith wE centre0 job1) = Some ''221B Baker Street''
   \<and> without_first_segment ''221B Baker Street'' = ''''"
proof -
  have q: "nearby_query near_centre wE centre0 job1"
    by (simp add: nearby_query_def near_centre_def maxDistance_def category_filter_applies_def
        wE_def job1_def)
  have "nearby_jobs sample_arith near_centre uW [wE] [job1] = Success [jobWithApproximateLocation sample_arith wE centre0 job1]"
    using q by (simp add: nearby_jobs_def uW_def wE_def centre0_def)
  moreover have "approximateLocation (jobWithApproximateLocation sample_arith wE centre0 job1)
      = Some ''221B Baker Street''"
    by (simp add: jobWithApproximateLocation_def approximate_location_eq job1_def job.extend_def)
  moreover have "without_first_segment ''221B Baker Street'' = ''''"
    by (simp add: without_first_segment_def)
  ultimately show ?thesis by (simp add: job1_def)
qed

text \<open>
  Claim C6, amended. Every job of a nearby-jobs result comes from a job of the
  collection, without its location; it carries the distance that \<open>calculateDistance\<close>
  gives from the worker's coordinates to the job's, and as approximate location the text
  behind the first comma of the address, trimmed, when the address has a comma, and the
  address unchanged when it has none.
\<close>

theorem nearby_result_amended:
  assumes "nearby_jobs fp near u workers jobs = Success rs"
  shows "\<exists>w centre. find (\<lambda>w. w_user w = u_id u) workers = Some w \<and> w_location w = Some centre
           \<and> (\<forall>r \<in> set rs. \<exists>j \<in> set jobs. \<exists>p.
                 job.truncate r = j\<lparr>j_location := None\<rparr>
                 \<and> j_location r = None
                 \<and> j_location j = Some p
                 \<and> distance r = Some (calculateDistance fp (coordinates centre) (coordinates p))
                 \<and> approximateLocation r =
                     (case j_address j of
                        None \<Rightarrow> None
                      | Some a \<Rightarrow> if CHR '','' \<in> set a then Some (trim (after_first_comma a))
                                  else Some a))"
proof -
  from assms obtain w centre where w: "find (\<lambda>w. w_user w = u_id u) workers = Some w"
    and c: "w_location w = Some centre"
    and rs: "rs = map (jobWithApproximateLocation fp w centre)
                (take 20 (sort_key (\<lambda>j. - j_createdAt j) (filter (nearby_query near w centre) jobs)))"
    by (rule nearby_jobs_Success)
  have "\<exists>j \<in> set jobs. \<exists>p.
                 job.truncate r = j\<lparr>j_location := None\<rparr>
                 \<and> j_location r = None
                 \<and> j_location j = Some p
                 \<and> distance r = Some (calculateDistance fp (coordinates centre) (coordinates p))
                 \<and> approximateLocation r =
                     (case j_address j of
                        None \<Rightarrow> None
                      | Some a \<Rightarrow> if CHR '','' \<in> set a then Some (trim (after_first_comma a))
                                  else Some a)" if "r \<in> set rs" for r
  proof -
    from that rs obtain j where r: "r = jobWithApproximateLocation fp w centre j"
      and j: "j \<in> set (take 20 (sort_key (\<lambda>j. - j_createdAt j) (filter (nearby_query near w centre) jobs)))"
      by auto
    from j have "j \<in> set (sort_key (\<lambda>j. - j_createdAt j) (filter (nearby_query near w centre) jobs))"
      by (rule in_set_takeD)
    then have mem: "j \<in> set jobs" and q: "nearby_query near w centre j" by auto
    from q obtain p where p: "j_location j = Some p"
      by (auto simp: nearby_query_def split: option.splits)
    show ?thesis
      using mem p
      by (intro bexI [of _ j] exI [of _ p])
         (simp_all add: r jobWithApproximateLocation_def approximate_location_eq
            job.extend_def job.truncate_def)
  qed
  with w c show ?thesis by blast
qed

theorem nearby_result_amended_witness:
  "nearby_jobs sample_arith near_centre uW [wE] [job0] = Success [jobWithApproximateLocation sample_arith wE centre0 job0]
   \<and> j_location (jobWithApproximateLocation sample_arith wE centre0 job0) = None
   \<and> distance (jobWithApproximateLocation sample_arith wE centre0 job0)
       = Some (calculateDistance sample_arith (coordinates centre0) (coordinates centre0))
   \<and> approximateLocation (jobWithApproximateLocation sample_arith wE centre0 job0) = Some ''Vasant Kunj, New Delhi''"
proof -
  let ?r = "jobWithApproximateLocation sample_arith wE centre0 job0"
  have q: "nearby_query near_centre wE centre0 job0"
    by (simp add: nearby_query_def near_centre_def maxDistance_def category_filter_applies_def
        wE_def job0_def)
  have run: "nearby_jobs sample_arith near_centre uW [wE] [job0] = Success [?r]"
    using q by (simp add: nearby_jobs_def uW_def wE_def centre0_def)
  have tr: "trim (after_first_comma ''A-15, Vasant Kunj, New Delhi'') = ''Vasant Kunj, New Delhi''"
    by code_simp
  from nearby_result_amended [OF run] obtain w centre where
    w: "find (\<lambda>w. w_user w = u_id uW) [wE] = Some w" and c: "w_location w = Some centre"
    and all: "\<forall>r \<in> set [?r]. \<exists>j \<in> set [job0]. \<exists>p.
                 job.truncate r = j\<lparr>j_location := None\<rparr>
                 \<and> j_location r = None
                 \<and> j_location j = Some p
                 \<and> distance r = Some (calculateDistance sample_arith (coordinates centre) (coordinates p))
                 \<and> approximateLocation r =
                     (case j_address j of
                        None \<Rightarrow> None
                      | Some a \<Rightarrow> if CHR '','' \<in> set a then Some (trim (after_first_comma a))
                                  else Some a)"
    by blast
  from w have "w = wE" by (simp add: uW_def wE_def)
  with c have centre: "centre = centre0" by (simp add: wE_def)
  from all have "\<exists>p. j_location ?r = None
                 \<and> j_location job0 = Some p
                 \<and> distance ?r = Some (calculateDistance sample_arith (coordinates centre) (coordinates p))
                 \<and> approximateLocation ?r =
                     (case j_address job0 of
                        None \<Rightarrow> None
                      | Some a \<Rightarrow> if CHR '','' \<in> set a then Some (trim (after_first_comma a))
                                  else Some a)"
    by simp
  then have "j_location ?r = None
      \<and> distance ?r = Some (calculateDistance sample_arith (coordinates centre0) (coordinates centre0))
      \<and> approximateLocation ?r = Some ''Vasant Kunj, New Delhi''"
    unfolding centre by (auto simp: job0_def tr)
  with run show ?thesis by simp
qed

subsection \<open>Nearby jobs: the category filter\<close>

text \<open>
  Claim C5, as stated, fails: a worker with no category at all has the filter skipped
  too, and is offered an electrical job although the category set does not contain it.
\<close>

theorem category_filter_counterexample:
  "\<not> category_filter_applies wE
   \<and> set (w_categories wE) \<noteq> {''general''}
   \<and> j_category job1 = Some ''electrical''
   \<and> ''electrical'' \<notin> set (w_categories wE)
   \<and> nearby_jobs sample_arith near_centre uW [wE] [job1] = Success [jobWithApproximateLocation sample_arith wE centre0 job1]"
proof -
  have q: "nearby_query near_centre wE centre0 job1"
    by (simp add: nearby_query_def near_centre_def maxDistance_def category_filter_applies_def
        wE_def job1_def)
  have "nearby_jobs sample_arith near_centre uW [wE] [job1] = Success [jobWithApproximateLocation sample_arith wE centre0 job1]"
    using q by (simp add: nearby_jobs_def uW_def wE_def centre0_def)
  then show ?thesis
    by (simp add: category_filter_applies_def wE_def job1_def)
qed

text \<open>
  Claim C5, amended. The category filter is skipped when the worker's category list is
  empty or is the single entry \<open>general\<close>, and the query then does not look at the
  category of a job; for a list without repeated entries these are the only cases. When
  the filter applies, a job whose category is not in the worker's list does not match,
  and every job of the result has a category of the list.
\<close>

theorem category_filter_amended:
  "(w_categories w = [] \<or> w_categories w = [''general'']
      \<longrightarrow> \<not> category_filter_applies w
          \<and> nearby_query near w centre (j\<lparr>j_category := c\<rparr>) = nearby_query near w centre j)
   \<and> (distinct (w_categories w)
      \<longrightarrow> (\<not> category_filter_applies w)
           = (set (w_categories w) = {} \<or> set (w_categories w) = {''general''}))
   \<and> (category_filter_applies w \<and> (\<forall>k. j_category j = Some k \<longrightarrow> k \<notin> set (w_categories w))
      \<longrightarrow> \<not> nearby_query near w centre j)
   \<and> (category_filter_applies w \<and> find (\<lambda>x. w_user x = u_id u) workers = Some w
        \<and> nearby_jobs fp near u workers jobs = Success rs
      \<longrightarrow> (\<forall>r \<in> set rs. \<exists>k. j_category r = Some k \<and> k \<in> set (w_categories w)))"
proof (intro conjI impI)
  assume "w_categories w = [] \<or> w_categories w = [''general'']"
  then show "\<not> category_filter_applies w" by (auto simp: category_filter_applies_def)
  then show "nearby_query near w centre (j\<lparr>j_category := c\<rparr>) = nearby_query near w centre j"
    by (simp add: nearby_query_def)
next
  assume d: "distinct (w_categories w)"
  show "(\<not> category_filter_applies w)
           = (set (w_categories w) = {} \<or> set (w_categories w) = {''general''})"
  proof (cases "w_categories w")
    case Nil
    then show ?thesis by (simp add: category_filter_applies_def)
  next
    case (Cons a as)
    show ?thesis
    proof (cases as)
      case Nil
      with Cons show ?thesis by (auto simp: category_filter_applies_def)
    next
      case (Cons b bs)
      with \<open>w_categories w = a # as\<close> d have "a \<noteq> b" by auto
      then have "set (w_categories w) \<noteq> {''general''}"
        using Cons \<open>w_categories w = a # as\<close> by auto
      then show ?thesis
        using Cons \<open>w_categories w = a # as\<close> by (simp add: category_filter_applies_def)
    qed
  qed
next
  assume "category_filter_applies w \<and> (\<forall>k. j_category j = Some k \<longrightarrow> k \<notin> set (w_categories w))"
  then show "\<not> nearby_query near w centre j"
    by (auto simp: nearby_query_def split: option.splits)
next
  assume a: "category_filter_applies w \<and> find (\<lambda>x. w_user x = u_id u) workers = Some w
        \<and> nearby_jobs fp near u workers jobs = Success rs"
  then obtain w' centre' where w': "find (\<lambda>w. w_user w = u_id u) workers = Some w'"
    and rs: "rs = map (jobWithApproximateLocation fp w' centre')
                (take 20 (sort_key (\<lambda>j. - j_createdAt j) (filter (nearby_query near w' centre') jobs)))"
    by (blast elim: nearby_jobs_Success)
  from a w' have ww: "w' = w" by simp
  show "\<forall>r \<in> set rs. \<exists>k. j_category r = Some k \<and> k \<in> set (w_categories w)"
  proof
    fix r assume "r \<in> set rs"
    with rs ww obtain j where r: "r = jobWithApproximateLocation fp w centre' j"
      and j: "j \<in> set (take 20 (sort_key (\<lambda>j. - j_createdAt j) (filter (nearby_query near w centre') jobs)))"
      by auto
    from j have "j \<in> set (sort_key (\<lambda>j. - j_createdAt j) (filter (nearby_query near w centre') jobs))"
      by (rule in_set_takeD)
    then have "nearby_query near w centre' j" by simp
    with a obtain k where "j_category j = Some k" "k \<in> set (w_categories w)"
      by (auto simp: nearby_query_def split: option.splits)
    then show "\<exists>k. j_category r = Some k \<and> k \<in> set (w_categories w)"
      by (simp add: r jobWithApproximateLocation_def job.extend_def)
  qed
qed

theorem category_filter_amended_witness:
  "\<not> category_filter_applies wA
   \<and> nearby_query near_centre wA centre0 job1
   \<and> (\<not> category_filter_applies wE) = (set (w_categories wE) = {} \<or> set (w_categories wE) = {''general''})
   \<and> \<not> nearby_query near_centre wP centre0 job1
   \<and> nearby_jobs sample_arith near_centre uW [wP] [job1, job0] = Success [jobWithApproximateLocation sample_arith wP centre0 job0]"
proof -
  have g: "w_categories wA = [] \<or> w_categories wA = [''general'']" by (simp add: wA_def)
  have q0: "nearby_query near_centre wA centre0 (job1\<lparr>j_category := None\<rparr>)"
    by (simp add: nearby_query_def near_centre_def maxDistance_def category_filter_applies_def
        wA_def job1_def)
  from category_filter_amended [where w = wA and near = near_centre and centre = centre0
      and j = job1 and c = None] g q0
  have one: "\<not> category_filter_applies wA \<and> nearby_query near_centre wA centre0 job1" by blast
  have d: "distinct (w_categories wE)" by (simp add: wE_def)
  from category_filter_amended [where w = wE] d
  have two: "(\<not> category_filter_applies wE)
      = (set (w_categories wE) = {} \<or> set (w_categories wE) = {''general''})" by blast
  have ap: "category_filter_applies wP" by (simp add: category_filter_applies_def wP_def)
  have nk: "\<forall>k. j_category job1 = Some k \<longrightarrow> k \<notin> set (w_categories wP)"
    by (simp add: job1_def wP_def)
  from category_filter_amended [where w = wP and near = near_centre and centre = centre0
      and j = job1] ap nk
  have three: "\<not> nearby_query near_centre wP centre0 job1" by blast
  have q1: "nearby_query near_centre wP centre0 job0"
    by (simp add: nearby_query_def near_centre_def maxDistance_def category_filter_applies_def
        wP_def job0_def)
  have four: "nearby_jobs sample_arith near_centre uW [wP] [job1, job0]
      = Success [jobWithApproximateLocation sample_arith wP centre0 job0]"
    using three q1 by (simp add: nearby_jobs_def uW_def wP_def centre0_def)
  from one two three four show ?thesis by simp
qed

subsection \<open>The point (0, 0)\<close>

text \<open>
  Claim C10, as stated, fails: the nearby-jobs check and \<open>isValidCoordinates\<close> are not
  the only places that turn the point (0, 0) down; the guard of the job route
  \<open>POST /create\<close> does, so that a job at (0, 0) is not accepted there.
\<close>

theorem zero_point_counterexample:
  "route_create_location id uClient (Fin 0) (Fin 0) = Failure 400 ''Invalid coordinates''"
  by (simp add: route_create_location_def falsy_def uClient_def)

text \<open>
  Claim C10, amended. For raw inputs that parse to latitude 0 and longitude 0,
  \<open>validateCoordinates\<close> returns the point [0, 0]; \<open>createJob\<close> of the controller
  accepts it, the schema validator of the job's coordinates passes it, and the
  update-location route stores it as the worker's location. The guard of the job route
  \<open>POST /create\<close>, \<open>isValidCoordinates\<close> and the nearby-jobs query, for a worker
  whose registered location it is, reject it.
\<close>

theorem zero_point:
  assumes "pf latRaw = Fin 0" and "pf lngRaw = Fin 0"
  shows "validateCoordinates pf latRaw lngRaw = Some \<lparr>ptype = ''Point'', coordinates = [Fin 0, Fin 0]\<rparr>
   \<and> (u_userType c = ''client'' \<longrightarrow>
        createJob_location pf c latRaw lngRaw = Success \<lparr>ptype = ''Point'', coordinates = [Fin 0, Fin 0]\<rparr>)
   \<and> job_coordinates_validator [Fin 0, Fin 0]
   \<and> (u_userType c = ''client'' \<longrightarrow>
        route_create_location pf c latRaw lngRaw = Failure 400 ''Invalid coordinates'')
   \<and> (u_userType u = ''worker'' \<and> find (\<lambda>w. w_user w = u_id u) workers = Some w \<longrightarrow>
        (\<exists>workers'. update_location pf u latRaw lngRaw workers
             = (Success \<lparr>ptype = ''Point'', coordinates = [Fin 0, Fin 0]\<rparr>, workers')
           \<and> find (\<lambda>w. w_user w = u_id u) workers'
               = Some (w\<lparr>w_location := Some \<lparr>ptype = ''Point'', coordinates = [Fin 0, Fin 0]\<rparr>\<rparr>)
           \<and> nearby_jobs fp near u workers' jobs
               = Failure 400 ''Valid worker location not found. Please update your registered location.''))
   \<and> isValidCoordinates [Fin 0, Fin 0] = False"
proof -
  let ?z = "\<lparr>ptype = ''Point'', coordinates = [Fin 0, Fin 0]\<rparr>"
  have v: "validateCoordinates pf latRaw lngRaw = Some ?z"
    using assms by (simp add: validateCoordinates_def Let_def)
  have cj: "u_userType c = ''client'' \<longrightarrow> createJob_location pf c latRaw lngRaw = Success ?z"
    by (simp add: createJob_location_def v)
  have rc: "u_userType c = ''client'' \<longrightarrow>
      route_create_location pf c latRaw lngRaw = Failure 400 ''Invalid coordinates''"
    using assms by (simp add: route_create_location_def falsy_def)
  have jv: "job_coordinates_validator [Fin 0, Fin 0]"
    by (simp add: job_coordinates_validator_def)
  have iv: "isValidCoordinates [Fin 0, Fin 0] = False"
    by (simp add: isValidCoordinates_def)
  have up: "\<exists>workers'. update_location pf u latRaw lngRaw workers = (Success ?z, workers')
           \<and> find (\<lambda>w. w_user w = u_id u) workers' = Some (w\<lparr>w_location := Some ?z\<rparr>)
           \<and> nearby_jobs fp near u workers' jobs
               = Failure 400 ''Valid worker location not found. Please update your registered location.''"
    if h: "u_userType u = ''worker'' \<and> find (\<lambda>w. w_user w = u_id u) workers = Some w"
  proof -
    let ?ws = "update_first (\<lambda>w. w_user w = u_id u) (\<lambda>w. w\<lparr>w_location := Some ?z\<rparr>) workers"
    from h have wu: "w_user w = u_id u" by (auto simp: find_Some_iff)
    have f: "find (\<lambda>w. w_user w = u_id u) ?ws = Some (w\<lparr>w_location := Some ?z\<rparr>)"
      using h by (intro find_update_first) (simp_all add: wu)
    have "update_location pf u latRaw lngRaw workers = (Success ?z, ?ws)"
      using h by (simp add: update_location_def v)
    moreover have "nearby_jobs fp near u ?ws jobs
        = Failure 400 ''Valid worker location not found. Please update your registered location.''"
      using h f by (simp add: nearby_jobs_def)
    ultimately show ?thesis using f by blast
  qed
  from v cj jv rc up iv show ?thesis by blast
qed

theorem zero_point_witness:
  "validateCoordinates id (Fin 0) (Fin 0) = Some \<lparr>ptype = ''Point'', coordinates = [Fin 0, Fin 0]\<rparr>
   \<and> createJob_location id uClient (Fin 0) (Fin 0) = Success \<lparr>ptype = ''Point'', coordinates = [Fin 0, Fin 0]\<rparr>
   \<and> route_create_location id uClient (Fin 0) (Fin 0) = Failure 400 ''Invalid coordinates''
   \<and> (\<exists>workers'. update_location id uW (Fin 0) (Fin 0) [wA]
             = (Success \<lparr>ptype = ''Point'', coordinates = [Fin 0, Fin 0]\<rparr>, workers')
           \<and> nearby_jobs sample_arith near_centre uW workers' [job0]
               = Failure 400 ''Valid worker location not found. Please update your registered location.'')
   \<and> isValidCoordinates [Fin 0, Fin 0] = False"
proof -
  have c: "u_userType uClient = ''client''" by (simp add: uClient_def)
  have w: "u_userType uW = ''worker'' \<and> find (\<lambda>w. w_user w = u_id uW) [wA] = Some wA"
    by (simp add: uW_def wA_def)
  from zero_point [where pf = id and latRaw = "Fin 0" and lngRaw = "Fin 0" and c = uClient
      and u = uW and workers = "[wA]" and w = wA and fp = sample_arith and near = near_centre and jobs = "[job0]"] c w
  show ?thesis by auto
qed

end
